theory Spec2Isabelle
  imports Complex_Main
begin

section \<open>The numbers of the host language\<close>

text \<open>
  Both \<open>clamp\<close> functions of the article
  "Using the Clamp Function for Definite Boundaries in JavaScript" take and return
  values of the TypeScript type \<open>number\<close>. The article itself calls them with
  \<open>NaN\<close>, \<open>Infinity\<close> and \<open>-Infinity\<close>, so these three are values of the model.
  The finite numbers are embedded in the reals: the program only compares and selects
  its arguments and never does arithmetic on them, so no rounding takes place.
  The two zeros of the floating-point format are the one value \<open>Num 0\<close>: neither
  \<open><\<close>, \<open>>\<close>, \<open><=\<close> nor \<open>===\<close> tells them apart, and \<open>Math.max\<close> and
  \<open>Math.min\<close> map equal arguments to equal results under that identification.
\<close>

datatype number = NaN | NegInfinity | Num real | PosInfinity

text \<open>
  The relational operators on numbers. A comparison with \<open>NaN\<close> on either side is
  false; \<open>a > b\<close> is \<open>b < a\<close>; \<open>a <= b\<close> is false on \<open>NaN\<close> and otherwise the
  negation of \<open>b < a\<close>.
\<close>

fun js_lt :: "number \<Rightarrow> number \<Rightarrow> bool" where
  "js_lt NaN _ = False"
| "js_lt _ NaN = False"
| "js_lt NegInfinity NegInfinity = False"
| "js_lt NegInfinity _ = True"
| "js_lt _ NegInfinity = False"
| "js_lt PosInfinity _ = False"
| "js_lt _ PosInfinity = True"
| "js_lt (Num x) (Num y) = (x < y)"

definition js_gt :: "number \<Rightarrow> number \<Rightarrow> bool" where
  "js_gt a b = js_lt b a"

definition js_le :: "number \<Rightarrow> number \<Rightarrow> bool" where
  "js_le a b = (if a = NaN \<or> b = NaN then False else \<not> js_lt b a)"

text \<open>
  \<open>Math.max(a, b)\<close> and \<open>Math.min(a, b)\<close> of the standard library, for two
  arguments: \<open>NaN\<close> as soon as one argument is \<open>NaN\<close>; otherwise the running
  extremum starts at the first argument and is replaced by the second one when that is
  strictly beyond it.
\<close>

definition Math_max :: "number \<Rightarrow> number \<Rightarrow> number" where
  "Math_max a b = (if a = NaN \<or> b = NaN then NaN else if js_gt b a then b else a)"

definition Math_min :: "number \<Rightarrow> number \<Rightarrow> number" where
  "Math_min a b = (if a = NaN \<or> b = NaN then NaN else if js_lt b a then b else a)"

definition isNaN :: "number \<Rightarrow> bool" where
  "isNaN a = (a = NaN)"

fun isFinite :: "number \<Rightarrow> bool" where
  "isFinite (Num _) = True"
| "isFinite _ = False"


section \<open>The two clamp functions\<close>

text \<open>
  A call either returns a value (\<open>Inr\<close>) or throws (\<open>Inl\<close>); \<open>Error msg\<close> is
  \<open>new Error(msg)\<close>.
\<close>

datatype error = Error string

text \<open>
  The first version of the article:
  \<^verbatim>\<open>return Math.min(Math.max(value, min), max);\<close>
\<close>

definition clamp_minmax :: "number \<Rightarrow> number \<Rightarrow> number \<Rightarrow> error + number" where
  "clamp_minmax value min' max' = Inr (Math_min (Math_max value min') max')"

text \<open>
  The second version, the sequential bound checks:
  \<^verbatim>\<open>if (value < min) { return min; }  if (value > max) { return max; }  return value;\<close>
\<close>

definition clamp_seq :: "number \<Rightarrow> number \<Rightarrow> number \<Rightarrow> error + number" where
  "clamp_seq value min' max' =
     (if js_lt value min' then Inr min'
      else if js_gt value max' then Inr max'
      else Inr value)"

text \<open>
  A nested call \<open>f(g(x))\<close>: the argument is evaluated first, and what it throws is
  thrown by the whole expression.
\<close>

definition and_then :: "error + 'a \<Rightarrow> ('a \<Rightarrow> error + 'b) \<Rightarrow> error + 'b" where
  "and_then r f = (case r of Inl e \<Rightarrow> Inl e | Inr x \<Rightarrow> f x)"

text \<open>
  The expression \<open>clamp(clamp(value, min, max), min, max)\<close>, for each version.
\<close>

definition clamp_minmax_twice :: "number \<Rightarrow> number \<Rightarrow> number \<Rightarrow> error + number" where
  "clamp_minmax_twice value min' max' =
     and_then (clamp_minmax value min' max') (\<lambda>r. clamp_minmax r min' max')"

definition clamp_seq_twice :: "number \<Rightarrow> number \<Rightarrow> number \<Rightarrow> error + number" where
  "clamp_seq_twice value min' max' =
     and_then (clamp_seq value min' max') (\<lambda>r. clamp_seq r min' max')"

text \<open>
  The three guards that the article shows in its section on edge cases. They are
  separate snippets; neither \<open>clamp\<close> body contains them.
\<close>

definition guard_bounds :: "number \<Rightarrow> number \<Rightarrow> error + unit" where
  "guard_bounds min' max' =
     (if js_gt min' max'
      then Inl (Error ''Lower limit cannot be greater than upper limit'')
      else Inr ())"

definition guard_nan :: "number \<Rightarrow> number \<Rightarrow> number \<Rightarrow> error + unit" where
  "guard_nan value min' max' =
     (if isNaN value \<or> isNaN min' \<or> isNaN max'
      then Inl (Error ''All inputs must be numbers'')
      else Inr ())"

definition guard_finite :: "number \<Rightarrow> number \<Rightarrow> number \<Rightarrow> error + unit" where
  "guard_finite value min' max' =
     (if \<not> isFinite value \<or> \<not> isFinite min' \<or> \<not> isFinite max'
      then Inl (Error ''Inputs cannot be infinite'')
      else Inr ())"


section \<open>Facts about the comparisons\<close>

lemma js_lt_irrefl [simp]: "\<not> js_lt a a"
  by (cases a) simp_all

lemma js_lt_trans: "js_lt a b \<Longrightarrow> js_lt b c \<Longrightarrow> js_lt a c"
  by (cases a; cases b; cases c) simp_all

lemma js_lt_asym: "js_lt a b \<Longrightarrow> \<not> js_lt b a"
  by (cases a; cases b) simp_all

lemma js_lt_not_NaN: "js_lt a b \<Longrightarrow> a \<noteq> NaN \<and> b \<noteq> NaN"
  by (cases a; cases b) simp_all

lemma js_le_not_NaN: "js_le a b \<Longrightarrow> a \<noteq> NaN \<and> b \<noteq> NaN"
  by (simp add: js_le_def split: if_splits)

lemma js_le_iff: "js_le a b \<longleftrightarrow> js_lt a b \<or> (a = b \<and> a \<noteq> NaN)"
  by (cases a; cases b) (auto simp: js_le_def)

lemma js_total: "a \<noteq> NaN \<Longrightarrow> b \<noteq> NaN \<Longrightarrow> js_lt a b \<or> a = b \<or> js_lt b a"
  by (cases a; cases b) auto

lemmas clamp_defs =
  clamp_minmax_def clamp_seq_def Math_max_def Math_min_def js_gt_def js_le_def

lemmas twice_defs = clamp_minmax_twice_def clamp_seq_twice_def and_then_def


section \<open>The guards are not part of the functions\<close>

text \<open>
  On the article's own edge-case calls each guard throws, while both functions return.
\<close>

lemma guard_bounds_throws_where_clamp_returns:
  "guard_bounds (Num 15) (Num 5)
     = Inl (Error ''Lower limit cannot be greater than upper limit'') \<and>
   clamp_minmax (Num 10) (Num 15) (Num 5) = Inr (Num 5) \<and>
   clamp_seq (Num 10) (Num 15) (Num 5) = Inr (Num 15)"
  by (simp add: guard_bounds_def clamp_defs)

lemma guard_nan_throws_where_clamp_returns:
  "guard_nan NaN (Num 0) (Num 10) = Inl (Error ''All inputs must be numbers'') \<and>
   clamp_minmax NaN (Num 0) (Num 10) = Inr NaN \<and>
   clamp_seq NaN (Num 0) (Num 10) = Inr NaN"
  by (simp add: guard_nan_def isNaN_def clamp_defs)

lemma guard_finite_throws_where_clamp_returns:
  "guard_finite (Num 50) NegInfinity PosInfinity
     = Inl (Error ''Inputs cannot be infinite'') \<and>
   clamp_minmax (Num 50) NegInfinity PosInfinity = Inr (Num 50) \<and>
   clamp_seq (Num 50) NegInfinity PosInfinity = Inr (Num 50)"
  by (simp add: guard_finite_def clamp_defs)


section \<open>The contract of clamp\<close>

text \<open>
  Claim C1. Whenever \<open>lowerBound <= upperBound\<close>, both versions return
  \<open>lowerBound\<close> if \<open>value < lowerBound\<close>, \<open>upperBound\<close> if
  \<open>value > upperBound\<close>, and \<open>value\<close> itself otherwise. This covers
  \<open>value = NaN\<close>, which fails both comparisons and is returned as it is.
\<close>

theorem clamp_cases:
  assumes "js_le lowerBound upperBound"
  shows "(js_lt value lowerBound \<longrightarrow>
           clamp_minmax value lowerBound upperBound = Inr lowerBound \<and>
           clamp_seq value lowerBound upperBound = Inr lowerBound) \<and>
         (js_gt value upperBound \<longrightarrow>
           clamp_minmax value lowerBound upperBound = Inr upperBound \<and>
           clamp_seq value lowerBound upperBound = Inr upperBound) \<and>
         (\<not> js_lt value lowerBound \<and> \<not> js_gt value upperBound \<longrightarrow>
           clamp_minmax value lowerBound upperBound = Inr value \<and>
           clamp_seq value lowerBound upperBound = Inr value)"
  using assms
  by (cases "value"; cases lowerBound; cases upperBound) (auto simp: clamp_defs)

theorem clamp_cases_witness:
  "js_le (Num 0) (Num 100) \<and>
   js_lt (Num (- 5)) (Num 0) \<and>
     clamp_minmax (Num (- 5)) (Num 0) (Num 100) = Inr (Num 0) \<and>
     clamp_seq (Num (- 5)) (Num 0) (Num 100) = Inr (Num 0) \<and>
   js_gt (Num 150) (Num 100) \<and>
     clamp_minmax (Num 150) (Num 0) (Num 100) = Inr (Num 100) \<and>
     clamp_seq (Num 150) (Num 0) (Num 100) = Inr (Num 100) \<and>
   \<not> js_lt (Num 50) (Num 0) \<and> \<not> js_gt (Num 50) (Num 100) \<and>
     clamp_minmax (Num 50) (Num 0) (Num 100) = Inr (Num 50) \<and>
     clamp_seq (Num 50) (Num 0) (Num 100) = Inr (Num 50)"
proof -
  have b: "js_le (Num 0) (Num 100)" by (simp add: js_le_def)
  show ?thesis
    using b clamp_cases [OF b, of "Num (- 5)"] clamp_cases [OF b, of "Num 150"]
      clamp_cases [OF b, of "Num 50"]
    by (simp add: js_gt_def)
qed

text \<open>
  Claim C2, as stated, fails: the article's own call \<open>clamp(NaN, 0, 10)\<close> has ordered
  bounds and returns \<open>NaN\<close>, which is neither \<open>>= 0\<close> nor \<open><= 10\<close>.
\<close>

theorem clamp_range_counterexample:
  "js_le (Num 0) (Num 10) \<and>
   clamp_minmax NaN (Num 0) (Num 10) = Inr NaN \<and>
   clamp_seq NaN (Num 0) (Num 10) = Inr NaN \<and>
   \<not> (js_le (Num 0) NaN \<and> js_le NaN (Num 10))"
  by (simp add: clamp_defs)

text \<open>
  Claim C2, amended. Whenever \<open>lowerBound <= upperBound\<close> and \<open>value\<close> is not
  \<open>NaN\<close>, both versions return a number \<open>r\<close> with
  \<open>lowerBound <= r\<close> and \<open>r <= upperBound\<close>.
\<close>

theorem clamp_in_interval:
  assumes "js_le lowerBound upperBound" and "value \<noteq> NaN"
  shows "(\<exists>r. clamp_minmax value lowerBound upperBound = Inr r \<and>
               js_le lowerBound r \<and> js_le r upperBound) \<and>
         (\<exists>r. clamp_seq value lowerBound upperBound = Inr r \<and>
               js_le lowerBound r \<and> js_le r upperBound)"
  using assms
  by (cases "value"; cases lowerBound; cases upperBound) (auto simp: clamp_defs)

theorem clamp_in_interval_witness:
  "js_le (Num 0) (Num 100) \<and> Num 150 \<noteq> NaN \<and>
   (\<exists>r. clamp_minmax (Num 150) (Num 0) (Num 100) = Inr r \<and>
        js_le (Num 0) r \<and> js_le r (Num 100)) \<and>
   (\<exists>r. clamp_seq (Num 150) (Num 0) (Num 100) = Inr r \<and>
        js_le (Num 0) r \<and> js_le r (Num 100))"
proof -
  have b: "js_le (Num 0) (Num 100)" by (simp add: js_le_def)
  have v: "Num 150 \<noteq> NaN" by simp
  show ?thesis using b v clamp_in_interval [OF b v] by simp
qed

text \<open>
  Claim C3. Whenever \<open>lowerBound <= value\<close> and \<open>value <= upperBound\<close>, both
  versions return \<open>value\<close>.
\<close>

theorem clamp_interior_identity:
  assumes "js_le lowerBound value" and "js_le value upperBound"
  shows "clamp_minmax value lowerBound upperBound = Inr value \<and>
         clamp_seq value lowerBound upperBound = Inr value"
  using assms
  by (cases "value"; cases lowerBound; cases upperBound) (auto simp: clamp_defs)

theorem clamp_interior_identity_witness:
  "js_le (Num 0) (Num 50) \<and> js_le (Num 50) (Num 100) \<and>
   clamp_minmax (Num 50) (Num 0) (Num 100) = Inr (Num 50) \<and>
   clamp_seq (Num 50) (Num 0) (Num 100) = Inr (Num 50)"
proof -
  have l: "js_le (Num 0) (Num 50)" by (simp add: js_le_def)
  have u: "js_le (Num 50) (Num 100)" by (simp add: js_le_def)
  show ?thesis using l u clamp_interior_identity [OF l u] by simp
qed

text \<open>
  Claim C4, as stated, fails for the sequential version when \<open>min > max\<close>: on the
  article's call \<open>clamp(10, 15, 5)\<close> it returns 15, and clamping 15 again returns 5.
\<close>

theorem clamp_idempotent_counterexample:
  "clamp_seq (Num 10) (Num 15) (Num 5) = Inr (Num 15) \<and>
   clamp_seq_twice (Num 10) (Num 15) (Num 5) = Inr (Num 5) \<and>
   clamp_seq_twice (Num 10) (Num 15) (Num 5) \<noteq> clamp_seq (Num 10) (Num 15) (Num 5)"
  by (simp add: clamp_defs twice_defs)

text \<open>
  Claim C4, amended. The \<open>Math.min\<close>/\<open>Math.max\<close> version is idempotent for all
  \<open>value\<close>, \<open>min\<close>, \<open>max\<close>; the sequential version is idempotent for all
  \<open>value\<close>, \<open>min\<close>, \<open>max\<close> for which \<open>min > max\<close> is false.
\<close>

theorem clamp_idempotent:
  "clamp_minmax_twice value min' max' = clamp_minmax value min' max' \<and>
   (\<not> js_gt min' max' \<longrightarrow> clamp_seq_twice value min' max' = clamp_seq value min' max')"
  by (cases "value"; cases min'; cases max') (auto simp: clamp_defs twice_defs)

theorem clamp_idempotent_witness:
  "\<not> js_gt (Num 0) (Num 100) \<and>
   clamp_minmax_twice (Num 150) (Num 0) (Num 100) = Inr (Num 100) \<and>
   clamp_seq_twice (Num 150) (Num 0) (Num 100) = Inr (Num 100) \<and>
   clamp_seq (Num 150) (Num 0) (Num 100) = Inr (Num 100)"
proof -
  have h: "\<not> js_gt (Num 0) (Num 100)" by (simp add: js_gt_def)
  have c: "clamp_seq (Num 150) (Num 0) (Num 100) = Inr (Num 100)"
    by (simp add: clamp_seq_def js_gt_def)
  have m: "clamp_minmax (Num 150) (Num 0) (Num 100) = Inr (Num 100)"
    by (simp add: clamp_minmax_def Math_max_def Math_min_def js_gt_def)
  show ?thesis
    using h c m clamp_idempotent [of "Num 150" "Num 0" "Num 100"] by simp
qed

text \<open>
  The condition on the sequential version cannot be dropped: with \<open>min > max\<close> a
  second application changes the result of the first for every \<open>value\<close> but \<open>NaN\<close>.
\<close>

lemma clamp_seq_not_idempotent:
  assumes "js_gt min' max'" and "value \<noteq> NaN"
  shows "clamp_seq_twice value min' max' \<noteq> clamp_seq value min' max'"
  using assms
  by (cases "value"; cases min'; cases max') (auto simp: clamp_defs twice_defs)

text \<open>
  Claim C5. Whenever \<open>min <= max\<close>, the two versions return the same result for
  every \<open>value\<close>.
\<close>

theorem clamp_versions_agree:
  assumes "js_le min' max'"
  shows "clamp_minmax value min' max' = clamp_seq value min' max'"
  using assms
  by (cases "value"; cases min'; cases max') (auto simp: clamp_defs)

theorem clamp_versions_agree_witness:
  "js_le (Num 0) (Num 100) \<and>
   clamp_minmax (Num (- 5)) (Num 0) (Num 100) = clamp_seq (Num (- 5)) (Num 0) (Num 100) \<and>
   clamp_seq (Num (- 5)) (Num 0) (Num 100) = Inr (Num 0)"
proof -
  have b: "js_le (Num 0) (Num 100)" by (simp add: js_le_def)
  have s: "clamp_seq (Num (- 5)) (Num 0) (Num 100) = Inr (Num 0)"
    by (simp add: clamp_seq_def)
  show ?thesis using b s clamp_versions_agree [OF b, of "Num (- 5)"] by simp
qed

text \<open>
  Claim C6. Whenever \<open>min <= max\<close>, both versions return \<open>min\<close> on
  \<open>clamp(min, min, max)\<close> and \<open>max\<close> on \<open>clamp(max, min, max)\<close>.
\<close>

theorem clamp_bounds_fixed:
  assumes "js_le min' max'"
  shows "clamp_minmax min' min' max' = Inr min' \<and> clamp_minmax max' min' max' = Inr max' \<and>
         clamp_seq min' min' max' = Inr min' \<and> clamp_seq max' min' max' = Inr max'"
  using assms
  by (cases min'; cases max') (auto simp: clamp_defs)

theorem clamp_bounds_fixed_witness:
  "js_le (Num 0) (Num 100) \<and>
   clamp_minmax (Num 0) (Num 0) (Num 100) = Inr (Num 0) \<and>
   clamp_minmax (Num 100) (Num 0) (Num 100) = Inr (Num 100) \<and>
   clamp_seq (Num 0) (Num 0) (Num 100) = Inr (Num 0) \<and>
   clamp_seq (Num 100) (Num 0) (Num 100) = Inr (Num 100)"
proof -
  have b: "js_le (Num 0) (Num 100)" by (simp add: js_le_def)
  show ?thesis using b clamp_bounds_fixed [OF b] by simp
qed

text \<open>
  Claim C7. The four example calls \<open>clamp(50, 0, 100)\<close>, \<open>clamp(-5, 0, 100)\<close>,
  \<open>clamp(150, 0, 100)\<close> and \<open>clamp(5, 10, 10)\<close> return 50, 0, 100 and 10, in
  both versions.
\<close>

theorem clamp_examples:
  "clamp_minmax (Num 50) (Num 0) (Num 100) = Inr (Num 50) \<and>
   clamp_minmax (Num (- 5)) (Num 0) (Num 100) = Inr (Num 0) \<and>
   clamp_minmax (Num 150) (Num 0) (Num 100) = Inr (Num 100) \<and>
   clamp_minmax (Num 5) (Num 10) (Num 10) = Inr (Num 10) \<and>
   clamp_seq (Num 50) (Num 0) (Num 100) = Inr (Num 50) \<and>
   clamp_seq (Num (- 5)) (Num 0) (Num 100) = Inr (Num 0) \<and>
   clamp_seq (Num 150) (Num 0) (Num 100) = Inr (Num 100) \<and>
   clamp_seq (Num 5) (Num 10) (Num 10) = Inr (Num 10)"
  by (simp add: clamp_defs)


section \<open>Outside the contract\<close>

text \<open>
  Claim C9, as stated, fails in its first part: with \<open>min > max\<close> the
  \<open>Math.min\<close>/\<open>Math.max\<close> version does not return \<open>max\<close> for every
  \<open>value\<close>, since \<open>clamp(NaN, 15, 5)\<close> returns \<open>NaN\<close>.
\<close>

theorem clamp_reversed_bounds_counterexample:
  "js_gt (Num 15) (Num 5) \<and>
   clamp_minmax NaN (Num 15) (Num 5) = Inr NaN \<and>
   clamp_minmax NaN (Num 15) (Num 5) \<noteq> Inr (Num 5)"
  by (simp add: clamp_defs)

text \<open>
  Claim C9, amended. With \<open>min > max\<close>, the \<open>Math.min\<close>/\<open>Math.max\<close> version
  returns \<open>max\<close> for every \<open>value\<close> other than \<open>NaN\<close>, and the sequential
  version returns \<open>min\<close> for every \<open>value < min\<close>; and there is an input with
  \<open>min > max\<close> on which the two versions return different results.
\<close>

theorem clamp_reversed_bounds:
  "(js_gt min' max' \<and> value \<noteq> NaN \<longrightarrow> clamp_minmax value min' max' = Inr max') \<and>
   (js_gt min' max' \<and> js_lt value min' \<longrightarrow> clamp_seq value min' max' = Inr min') \<and>
   (\<exists>v lo hi. js_gt lo hi \<and> clamp_minmax v lo hi \<noteq> clamp_seq v lo hi)"
proof -
  have "clamp_minmax value min' max' = Inr max'" if "js_gt min' max'" "value \<noteq> NaN"
    using that by (cases "value"; cases min'; cases max') (auto simp: clamp_defs)
  moreover have "clamp_seq value min' max' = Inr min'" if "js_lt value min'"
    using that by (simp add: clamp_seq_def)
  moreover have "js_gt (Num 15) (Num 5) \<and>
      clamp_minmax (Num 10) (Num 15) (Num 5) \<noteq> clamp_seq (Num 10) (Num 15) (Num 5)"
    by (simp add: clamp_defs)
  ultimately show ?thesis by blast
qed

theorem clamp_reversed_bounds_witness:
  "js_gt (Num 15) (Num 5) \<and> Num 10 \<noteq> NaN \<and> js_lt (Num 10) (Num 15) \<and>
   clamp_minmax (Num 10) (Num 15) (Num 5) = Inr (Num 5) \<and>
   clamp_seq (Num 10) (Num 15) (Num 5) = Inr (Num 15)"
proof -
  have g: "js_gt (Num 15) (Num 5)" by (simp add: js_gt_def)
  have l: "js_lt (Num 10) (Num 15)" by simp
  show ?thesis
    using g l clamp_reversed_bounds [of "Num 15" "Num 5" "Num 10"] by simp
qed

text \<open>
  Claim C10. Neither version throws: for every \<open>value\<close>, \<open>min\<close>, \<open>max\<close>,
  with \<open>min > max\<close>, \<open>min = max\<close>, \<open>NaN\<close> and the infinities included, both
  return a number.
\<close>

theorem clamp_never_throws:
  "(\<exists>r. clamp_minmax value min' max' = Inr r) \<and> (\<exists>r. clamp_seq value min' max' = Inr r)"
  by (simp add: clamp_minmax_def clamp_seq_def)

end
